theory Spec2Isabelle
  imports Main "HOL-Library.Word"
begin

section \<open>Strings of the program\<close>

text \<open>
  A string of the program is a sequence of code units; the model keeps the code units
  below 256, one \<^typ>\<open>char\<close> each. \<open>String.prototype.trim\<close> removes white space and line
  terminators at both ends; in this range they are the code units 9 to 13, 32 and 160.
\<close>

definition isWhiteSpace :: "char \<Rightarrow> bool" where
  "isWhiteSpace c = ((of_char c :: nat) \<in> {9, 10, 11, 12, 13, 32, 160})"

definition trim :: "string \<Rightarrow> string" where
  "trim s = rev (dropWhile isWhiteSpace (rev (dropWhile isWhiteSpace s)))"

text \<open>
  \<open>s.split(',')\<close>: the segments between the separators, in order. The result always has
  a first segment; \<open>''''.split(',')\<close> is the list with one empty segment.
\<close>

fun split_on :: "char \<Rightarrow> string \<Rightarrow> string list" where
  "split_on c [] = [[]]"
| "split_on c (x # xs) =
     (if x = c then [] # split_on c xs
      else (case split_on c xs of
              [] \<Rightarrow> [[x]]
            | seg # segs \<Rightarrow> (x # seg) # segs))"

text \<open>
  \<open>s.split(',')[1]\<close>: the second segment, \<open>None\<close> standing for \<open>undefined\<close> when the
  string has no comma.
\<close>

definition splitSecond :: "string \<Rightarrow> string option" where
  "splitSecond s = (case split_on CHR '','' s of
                      _ # seg # _ \<Rightarrow> Some seg
                    | _ \<Rightarrow> None)"

section \<open>Data model\<close>

text \<open>The \<open>ImageFile\<close> objects that the components exchange: \<open>{ dataUrl, mimeType }\<close>.\<close>

record ImageFile =
  dataUrl :: string
  mimeType :: string

text \<open>The state fields of the \<open>App\<close> component, one per \<open>useState\<close>.\<close>

record app_state =
  originalImage :: "ImageFile option"
  backgroundImage :: "ImageFile option"
  clothingImage :: "ImageFile option"
  generatedImage :: "string option"
  prompt :: string
  clothingPrompt :: string
  backgroundPrompt :: string
  preserveBodyShape :: bool
  isLoading :: bool
  error :: "string option"

definition initial_state :: app_state where
  "initial_state =
     \<lparr> originalImage = None, backgroundImage = None, clothingImage = None,
       generatedImage = None, prompt = [], clothingPrompt = [], backgroundPrompt = [],
       preserveBodyShape = True, isLoading = True, error = None \<rparr>"

text \<open>
  An argument of \<open>changePose\<close> that carries a reference image payload: \<open>null\<close> when the
  category has no image, else the value of \<open>dataUrl.split(',')[1]\<close>, which is
  \<open>undefined\<close> or a string.
\<close>

datatype wire_arg = Null | Undefined | Data string

definition wire_of :: "ImageFile option \<Rightarrow> wire_arg" where
  "wire_of img = (case img of
                    None \<Rightarrow> Null
                  | Some i \<Rightarrow> (case splitSecond (dataUrl i) of
                                None \<Rightarrow> Undefined
                              | Some seg \<Rightarrow> Data seg))"

text \<open>The ten positional arguments of one call of \<open>changePose\<close>.\<close>

record request =
  reqImage :: string
  reqMimeType :: string
  reqBackgroundImage :: wire_arg
  reqBackgroundMimeType :: "string option"
  reqClothingImage :: wire_arg
  reqClothingMimeType :: "string option"
  reqPrompt :: string
  reqBackgroundPrompt :: string
  reqClothingPrompt :: string
  reqPreserveBodyShape :: bool

text \<open>
  What a \<open>try\<close> block can catch: an \<open>Error\<close> instance with its \<open>message\<close>, or any other
  thrown value (a string, a plain object), kept here with the text it carries. A call of
  \<open>changePose\<close> resolves to the new image or rejects.
\<close>

datatype thrown = JsError string | NonError string

datatype outcome = Resolved string | Rejected thrown

type_synonym GenerationClient = "request \<Rightarrow> outcome"

section \<open>handleGeneratePose\<close>

definition validationMessage :: string where
  "validationMessage =
     ''Please describe what you want to change (pose, clothing, or background).''"

text \<open>
  The condition of the first \<open>if\<close> of \<open>handleGeneratePose\<close> is
  \<open>!originalImage || noModifier\<close>, where the second operand is the conjunction below.
\<close>

definition noModifier :: "app_state \<Rightarrow> bool" where
  "noModifier st =
     (trim (prompt st) = [] \<and> trim (clothingPrompt st) = [] \<and>
      trim (backgroundPrompt st) = [] \<and> backgroundImage st = None \<and>
      clothingImage st = None)"

definition guardRejects :: "app_state \<Rightarrow> bool" where
  "guardRejects st = (originalImage st = None \<or> noModifier st)"

definition isGenerationDisabled :: "app_state \<Rightarrow> bool" where
  "isGenerationDisabled st = (isLoading st \<or> originalImage st = None \<or> noModifier st)"

text \<open>\<open>e instanceof Error ? e.message : "An unknown error occurred."\<close>\<close>

definition errorMessage :: "thrown \<Rightarrow> string" where
  "errorMessage e = (case e of
                       JsError m \<Rightarrow> m
                     | NonError v \<Rightarrow> ''An unknown error occurred.'')"

text \<open>The \<open>catch\<close> block followed by the \<open>finally\<close> block.\<close>

definition handleGeneratePose_catch :: "thrown \<Rightarrow> app_state \<Rightarrow> app_state" where
  "handleGeneratePose_catch e st =
     st\<lparr> error := Some (''Failed to generate new pose. '' @ errorMessage e),
         isLoading := False \<rparr>"

text \<open>
  The continuation of \<open>handleGeneratePose\<close> after the \<open>await\<close>: the rest of the \<open>try\<close>
  block on success, the \<open>catch\<close> block on failure, and the \<open>finally\<close> block.
\<close>

definition handleGeneratePose_settle :: "outcome \<Rightarrow> app_state \<Rightarrow> app_state" where
  "handleGeneratePose_settle out st =
     (case out of
        Resolved img \<Rightarrow> st\<lparr> generatedImage := Some img, isLoading := False \<rparr>
      | Rejected e \<Rightarrow> handleGeneratePose_catch e st)"

definition buildRequest :: "app_state \<Rightarrow> string \<Rightarrow> ImageFile \<Rightarrow> request" where
  "buildRequest st base64Data img =
     \<lparr> reqImage = base64Data,
       reqMimeType = mimeType img,
       reqBackgroundImage = wire_of (backgroundImage st),
       reqBackgroundMimeType = map_option mimeType (backgroundImage st),
       reqClothingImage = wire_of (clothingImage st),
       reqClothingMimeType = map_option mimeType (clothingImage st),
       reqPrompt = prompt st,
       reqBackgroundPrompt = backgroundPrompt st,
       reqClothingPrompt = clothingPrompt st,
       reqPreserveBodyShape = preserveBodyShape st \<rparr>"

text \<open>
  The part of \<open>handleGeneratePose\<close> that runs before the \<open>await\<close>. The result is the
  state it leaves and, when \<open>changePose\<close> was called, the arguments of that call. A
  \<open>base64Data\<close> that is \<open>undefined\<close> or empty throws inside the \<open>try\<close> block, so the
  \<open>catch\<close> and \<open>finally\<close> blocks run at once and no call is made.
\<close>

definition invalidDataUrl :: thrown where
  "invalidDataUrl = JsError ''Invalid image data URL.''"

definition handleGeneratePose_begin :: "app_state \<Rightarrow> app_state \<times> request option" where
  "handleGeneratePose_begin st =
     (case originalImage st of
        None \<Rightarrow> (st\<lparr> error := Some validationMessage \<rparr>, None)
      | Some img \<Rightarrow>
          if noModifier st then (st\<lparr> error := Some validationMessage \<rparr>, None)
          else
            (let st1 = st\<lparr> isLoading := True, error := None, generatedImage := None \<rparr>
             in case splitSecond (dataUrl img) of
                  None \<Rightarrow> (handleGeneratePose_catch invalidDataUrl st1, None)
                | Some base64Data \<Rightarrow>
                    if base64Data = []
                    then (handleGeneratePose_catch invalidDataUrl st1, None)
                    else (st1, Some (buildRequest st base64Data img))))"

text \<open>
  One whole run of \<open>handleGeneratePose\<close> with nothing interleaved: the final state and
  the list of calls made to \<open>changePose\<close>.
\<close>

definition handleGeneratePose :: "GenerationClient \<Rightarrow> app_state \<Rightarrow> app_state \<times> request list" where
  "handleGeneratePose client st =
     (case handleGeneratePose_begin st of
        (st', None) \<Rightarrow> (st', [])
      | (st', Some r) \<Rightarrow> (handleGeneratePose_settle (client r) st', [r]))"

definition handleImageUpload :: "ImageFile \<Rightarrow> app_state \<Rightarrow> app_state" where
  "handleImageUpload imageFile st =
     st\<lparr> originalImage := Some imageFile, generatedImage := None, error := None \<rparr>"

section \<open>ImageUploader: reading a file\<close>

text \<open>
  A \<open>File\<close> as \<open>handleFileChange\<close> uses it: its declared \<open>type\<close> and its content.
\<close>

type_synonym byte = "8 word"

record File =
  fileType :: string
  fileBytes :: "byte list"

text \<open>
  \<open>FileReader.readAsDataURL\<close> belongs to the platform, not to the repository. The model
  follows the File API: the result is \<open>data:\<close>, the type of the file, \<open>;base64,\<close> and the
  base64 text of the content (RFC 4648, with padding). The read is taken to succeed.
\<close>

definition b64alphabet :: string where
  "b64alphabet = ''ABCDEFGHIJKLMNOPQRSTUVWXYZabcdefghijklmnopqrstuvwxyz0123456789+/''"

definition b64char :: "nat \<Rightarrow> char" where
  "b64char n = b64alphabet ! n"

fun base64 :: "byte list \<Rightarrow> string" where
  "base64 [] = []"
| "base64 [a] =
     [b64char (unat a div 4), b64char (unat a mod 4 * 16), CHR ''='', CHR ''='']"
| "base64 [a, b] =
     [b64char (unat a div 4), b64char (unat a mod 4 * 16 + unat b div 16),
      b64char (unat b mod 16 * 4), CHR ''='']"
| "base64 (a # b # c # rest) =
     [b64char (unat a div 4), b64char (unat a mod 4 * 16 + unat b div 16),
      b64char (unat b mod 16 * 4 + unat c div 64), b64char (unat c mod 64)] @ base64 rest"

definition readAsDataURL :: "File \<Rightarrow> string" where
  "readAsDataURL f = ''data:'' @ fileType f @ '';base64,'' @ base64 (fileBytes f)"

text \<open>
  \<open>handleFileChange\<close>: the value handed to \<open>onImageUpload\<close> when the reader has finished,
  or \<open>None\<close> when the file is missing or its type does not start with \<open>image/\<close>, in which
  case nothing happens at all.
\<close>

definition handleFileChange :: "File option \<Rightarrow> ImageFile option" where
  "handleFileChange file =
     (case file of
        None \<Rightarrow> None
      | Some f \<Rightarrow>
          if take 6 (fileType f) = ''image/''
          then Some \<lparr> dataUrl = readAsDataURL f, mimeType = fileType f \<rparr>
          else None)"

text \<open>The types named by the \<open>accept\<close> attribute of the file input.\<close>

definition acceptedTypes :: "string set" where
  "acceptedTypes = {''image/png'', ''image/jpeg'', ''image/webp''}"

section \<open>The application as a transition system\<close>

text \<open>
  \<open>loadInitialImage\<close>, started once by the effect: while it waits for \<open>fetch\<close> and \<open>blob\<close>
  it is \<open>Fetching\<close>; when they succeed it starts a reader and runs its \<open>finally\<close> block,
  and is \<open>Reading\<close> until the reader's \<open>onloadend\<close>; else it runs its \<open>catch\<close> and
  \<open>finally\<close> blocks. After either it is \<open>Settled\<close>.
\<close>

datatype init_phase = Fetching | Reading | Settled

text \<open>
  The state of the component, the phase of the initial load, the calls of \<open>changePose\<close>
  that have not settled yet, and every call of \<open>changePose\<close> made so far, oldest first.
\<close>

record sys =
  app :: app_state
  initPhase :: init_phase
  inflight :: "request list"
  calls :: "request list"

definition initial_sys :: sys where
  "initial_sys = \<lparr> app = initial_state, initPhase = Fetching, inflight = [], calls = [] \<rparr>"

text \<open>
  What can happen: the three steps of the initial load, a file given to one of the three
  uploaders, the two remove buttons, the text fields and the checkbox, a click on the
  Generate button, and the settling of the call at a position of \<open>inflight\<close>. The
  Generate button keeps its \<open>disabled\<close> attribute; every other control is taken to be
  usable at any time, which only adds behaviours.
\<close>

datatype event =
    InitialLoadFailed
  | InitialLoadFetched
  | InitialImageRead ImageFile
  | SourceFile "File option"
  | ClothingFile "File option"
  | BackgroundFile "File option"
  | RemoveClothing
  | RemoveBackground
  | SetPrompt string
  | SetClothingPrompt string
  | SetBackgroundPrompt string
  | SetPreserveBodyShape bool
  | ClickGenerate
  | Settle nat outcome

definition initialLoadMessage :: string where
  "initialLoadMessage = ''Could not load the sample image. Please upload your own.''"

text \<open>
  A call of \<open>handleGeneratePose\<close> up to its \<open>await\<close>, in the system: a call of
  \<open>changePose\<close>, if one is made, is recorded and stays in flight.
\<close>

definition invoke :: "sys \<Rightarrow> sys" where
  "invoke s =
     (case handleGeneratePose_begin (app s) of
        (st', None) \<Rightarrow> s\<lparr> app := st' \<rparr>
      | (st', Some r) \<Rightarrow>
          s\<lparr> app := st', inflight := inflight s @ [r], calls := calls s @ [r] \<rparr>)"

definition remove_nth :: "nat \<Rightarrow> 'a list \<Rightarrow> 'a list" where
  "remove_nth i xs = take i xs @ drop (Suc i) xs"

definition step :: "event \<Rightarrow> sys \<Rightarrow> sys" where
  "step e s =
     (case e of
        InitialLoadFailed \<Rightarrow>
          if initPhase s = Fetching
          then s\<lparr> app := (app s)\<lparr> error := Some initialLoadMessage, isLoading := False \<rparr>,
                  initPhase := Settled \<rparr>
          else s
      | InitialLoadFetched \<Rightarrow>
          if initPhase s = Fetching
          then s\<lparr> app := (app s)\<lparr> isLoading := False \<rparr>, initPhase := Reading \<rparr>
          else s
      | InitialImageRead img \<Rightarrow>
          if initPhase s = Reading
          then s\<lparr> app := (app s)\<lparr> originalImage := Some img \<rparr>, initPhase := Settled \<rparr>
          else s
      | SourceFile file \<Rightarrow>
          (case handleFileChange file of
             None \<Rightarrow> s
           | Some img \<Rightarrow> s\<lparr> app := handleImageUpload img (app s) \<rparr>)
      | ClothingFile file \<Rightarrow>
          (case handleFileChange file of
             None \<Rightarrow> s
           | Some img \<Rightarrow> s\<lparr> app := (app s)\<lparr> clothingImage := Some img \<rparr> \<rparr>)
      | BackgroundFile file \<Rightarrow>
          (case handleFileChange file of
             None \<Rightarrow> s
           | Some img \<Rightarrow> s\<lparr> app := (app s)\<lparr> backgroundImage := Some img \<rparr> \<rparr>)
      | RemoveClothing \<Rightarrow> s\<lparr> app := (app s)\<lparr> clothingImage := None \<rparr> \<rparr>
      | RemoveBackground \<Rightarrow> s\<lparr> app := (app s)\<lparr> backgroundImage := None \<rparr> \<rparr>
      | SetPrompt v \<Rightarrow> s\<lparr> app := (app s)\<lparr> prompt := v \<rparr> \<rparr>
      | SetClothingPrompt v \<Rightarrow> s\<lparr> app := (app s)\<lparr> clothingPrompt := v \<rparr> \<rparr>
      | SetBackgroundPrompt v \<Rightarrow> s\<lparr> app := (app s)\<lparr> backgroundPrompt := v \<rparr> \<rparr>
      | SetPreserveBodyShape v \<Rightarrow> s\<lparr> app := (app s)\<lparr> preserveBodyShape := v \<rparr> \<rparr>
      | ClickGenerate \<Rightarrow> if isGenerationDisabled (app s) then s else invoke s
      | Settle i out \<Rightarrow>
          if i < length (inflight s)
          then s\<lparr> app := handleGeneratePose_settle out (app s),
                  inflight := remove_nth i (inflight s) \<rparr>
          else s)"

fun run :: "event list \<Rightarrow> sys \<Rightarrow> sys" where
  "run [] s = s"
| "run (e # es) s = run es (step e s)"

inductive reachable :: "sys \<Rightarrow> bool" where
  start: "reachable initial_sys"
| next_event: "reachable s \<Longrightarrow> reachable (step e s)"

text \<open>What holds in every reachable state, as the proofs need it.\<close>

definition lifecycle_inv :: "sys \<Rightarrow> bool" where
  "lifecycle_inv s =
     ((initPhase s \<noteq> Fetching \<or>
         (isLoading (app s) \<and> inflight s = [] \<and> generatedImage (app s) = None))
      \<and> length (inflight s) \<le> 1
      \<and> (inflight s = [] \<or>
           (isLoading (app s) \<and> error (app s) = None \<and> generatedImage (app s) = None))
      \<and> (generatedImage (app s) = None \<or> error (app s) = None))"

section \<open>Concrete submissions\<close>

definition sampleImage :: ImageFile where
  "sampleImage = \<lparr> dataUrl = ''data:image/png;base64,iVBORw0KGgo='', mimeType = ''image/png'' \<rparr>"

definition noSourceSubmission :: app_state where
  "noSourceSubmission = initial_state\<lparr> prompt := ''wave'', isLoading := False \<rparr>"

definition noModifierSubmission :: app_state where
  "noModifierSubmission = initial_state\<lparr> originalImage := Some sampleImage, isLoading := False \<rparr>"

definition superheroSubmission :: app_state where
  "superheroSubmission =
     initial_state\<lparr> originalImage := Some sampleImage, prompt := ''superhero landing pose'',
                    isLoading := False \<rparr>"

definition bothSubmission :: app_state where
  "bothSubmission =
     initial_state\<lparr> originalImage := Some sampleImage,
                    clothingImage := Some \<lparr> dataUrl = ''data:image/jpeg;base64,/9j/4AAQ'',
                                            mimeType = ''image/jpeg'' \<rparr>,
                    clothingPrompt := ''red dress'', isLoading := False \<rparr>"

definition timeoutClient :: GenerationClient where
  "timeoutClient r = Rejected (JsError ''timeout'')"

definition stringRejectingClient :: GenerationClient where
  "stringRejectingClient r = Rejected (NonError ''timeout'')"

definition gifFile :: File where
  "gifFile = \<lparr> fileType = ''image/gif'', fileBytes = [0x47, 0x49, 0x46] \<rparr>"

definition pngFile :: File where
  "pngFile = \<lparr> fileType = ''image/png'', fileBytes = [0x89, 0x50, 0x4E, 0x47] \<rparr>"

definition emptyPngFile :: File where
  "emptyPngFile = \<lparr> fileType = ''image/png'', fileBytes = [] \<rparr>"

definition emptySourceSubmission :: app_state where
  "emptySourceSubmission =
     initial_state\<lparr> originalImage := handleFileChange (Some emptyPngFile),
                    prompt := ''wave'', isLoading := False \<rparr>"

definition pngSourceSubmission :: app_state where
  "pngSourceSubmission =
     initial_state\<lparr> originalImage := handleFileChange (Some pngFile),
                    prompt := ''wave'', isLoading := False \<rparr>"

definition emptyReferenceSubmission :: app_state where
  "emptyReferenceSubmission =
     initial_state\<lparr> originalImage := Some sampleImage,
                    clothingImage := handleFileChange (Some emptyPngFile),
                    isLoading := False \<rparr>"

definition readySys :: sys where
  "readySys =
     run [InitialLoadFetched, SourceFile (Some pngFile), SetPrompt ''wave''] initial_sys"

definition pendingSys :: sys where
  "pendingSys = step ClickGenerate readySys"

definition waveRequest :: request where
  "waveRequest =
     \<lparr> reqImage = ''iVBORw=='', reqMimeType = ''image/png'',
       reqBackgroundImage = Null, reqBackgroundMimeType = None,
       reqClothingImage = Null, reqClothingMimeType = None,
       reqPrompt = ''wave'', reqBackgroundPrompt = [], reqClothingPrompt = [],
       reqPreserveBodyShape = True \<rparr>"

section \<open>Validation\<close>

lemma trim_Nil: "trim [] = []"
  by (simp add: trim_def)

lemma begin_rejected:
  "guardRejects st \<Longrightarrow>
   handleGeneratePose_begin st = (st\<lparr> error := Some validationMessage \<rparr>, None)"
  by (auto simp: handleGeneratePose_begin_def guardRejects_def split: option.splits)

lemma run_rejected:
  "guardRejects st \<Longrightarrow>
   handleGeneratePose client st = (st\<lparr> error := Some validationMessage \<rparr>, [])"
  by (simp add: handleGeneratePose_def begin_rejected)

text \<open>
  C3, as the claim states it, fails: the rejection carries no reason of its own for a
  missing source image. A submission without a source image and with the pose text "wave"
  is rejected with the very error that a submission with a source image and no modifier
  gets, the one text of the guard, which asks for a description of the change.
\<close>

theorem no_source_reason_counterexample:
  "originalImage noSourceSubmission = None
   \<and> originalImage noModifierSubmission = Some sampleImage
   \<and> error (fst (handleGeneratePose (\<lambda>r. Resolved ''img'') noSourceSubmission))
       = Some ''Please describe what you want to change (pose, clothing, or background).''
   \<and> error (fst (handleGeneratePose (\<lambda>r. Resolved ''img'') noSourceSubmission))
       = error (fst (handleGeneratePose (\<lambda>r. Resolved ''img'') noModifierSubmission))"
proof -
  have a: "guardRejects noSourceSubmission"
    by (simp add: guardRejects_def noSourceSubmission_def initial_state_def)
  have b: "guardRejects noModifierSubmission"
    by (simp add: guardRejects_def noModifier_def noModifierSubmission_def initial_state_def
        trim_Nil)
  show ?thesis
    by (simp add: run_rejected [OF a] run_rejected [OF b])
      (simp add: noSourceSubmission_def noModifierSubmission_def initial_state_def
        validationMessage_def)
qed

text \<open>
  C3, amended. A submission without a source image is rejected, whatever its other fields
  hold (the test of the source image is the first operand of the guard): the error becomes
  the one validation text of the guard, "Please describe what you want to change (pose,
  clothing, or background).", which is also the text of the rejection for a missing
  modifier; nothing else in the state changes, and \<open>changePose\<close> is not called, whatever
  the client would answer.
\<close>

theorem no_source_image_rejected:
  "originalImage st = None \<Longrightarrow>
     guardRejects st
     \<and> handleGeneratePose_begin st =
         (st\<lparr> error :=
               Some ''Please describe what you want to change (pose, clothing, or background).'' \<rparr>,
          None)
     \<and> handleGeneratePose client st =
         (st\<lparr> error :=
               Some ''Please describe what you want to change (pose, clothing, or background).'' \<rparr>,
          [])
     \<and> validationMessage
         = ''Please describe what you want to change (pose, clothing, or background).''"
proof -
  assume "originalImage st = None"
  then have "guardRejects st"
    by (simp add: guardRejects_def)
  then show ?thesis
    by (simp add: begin_rejected run_rejected) (simp add: validationMessage_def)
qed

theorem no_source_image_rejected_witness:
  "originalImage noSourceSubmission = None
   \<and> handleGeneratePose (\<lambda>r. Resolved ''img'') noSourceSubmission
       = (noSourceSubmission
            \<lparr> error :=
                Some ''Please describe what you want to change (pose, clothing, or background).'' \<rparr>,
          [])"
proof -
  have h: "originalImage noSourceSubmission = None"
    by (simp add: noSourceSubmission_def initial_state_def)
  show ?thesis
    using h no_source_image_rejected [OF h, of "\<lambda>r. Resolved ''img''"] by simp
qed

text \<open>
  C4. A submission that has a source image and no modifier at all (the three texts
  empty, no clothing image, no background image) is rejected with the validation
  message, and \<open>changePose\<close> is not called.
\<close>

theorem no_modifier_rejected:
  "originalImage st = Some img \<Longrightarrow>
   prompt st = [] \<Longrightarrow> clothingPrompt st = [] \<Longrightarrow> backgroundPrompt st = [] \<Longrightarrow>
   clothingImage st = None \<Longrightarrow> backgroundImage st = None \<Longrightarrow>
     guardRejects st
     \<and> handleGeneratePose_begin st = (st\<lparr> error := Some validationMessage \<rparr>, None)
     \<and> handleGeneratePose client st = (st\<lparr> error := Some validationMessage \<rparr>, [])"
proof -
  assume "prompt st = []" "clothingPrompt st = []" "backgroundPrompt st = []"
    "clothingImage st = None" "backgroundImage st = None"
  then have "noModifier st"
    by (simp add: noModifier_def trim_Nil)
  then have "guardRejects st"
    by (simp add: guardRejects_def)
  then show ?thesis
    by (simp add: begin_rejected run_rejected)
qed

theorem no_modifier_rejected_witness:
  "originalImage noModifierSubmission = Some sampleImage
   \<and> handleGeneratePose (\<lambda>r. Resolved ''img'') noModifierSubmission
       = (noModifierSubmission\<lparr> error := Some validationMessage \<rparr>, [])"
proof -
  have h: "originalImage noModifierSubmission = Some sampleImage"
    "prompt noModifierSubmission = []" "clothingPrompt noModifierSubmission = []"
    "backgroundPrompt noModifierSubmission = []"
    "clothingImage noModifierSubmission = None" "backgroundImage noModifierSubmission = None"
    by (simp_all add: noModifierSubmission_def initial_state_def)
  show ?thesis
    using h(1) no_modifier_rejected [OF h, of "\<lambda>r. Resolved ''img''"] by simp
qed

section \<open>The request handed to changePose\<close>

lemma trim_keeps:
  "s \<noteq> [] \<Longrightarrow> \<not> isWhiteSpace (hd s) \<Longrightarrow> \<not> isWhiteSpace (last s) \<Longrightarrow> trim s = s"
proof -
  assume ne: "s \<noteq> []" and h: "\<not> isWhiteSpace (hd s)" and l: "\<not> isWhiteSpace (last s)"
  from ne h have a: "dropWhile isWhiteSpace s = s"
    by (cases s) simp_all
  from ne l have b: "dropWhile isWhiteSpace (rev s) = rev s"
    by (cases "rev s") (simp_all add: last_rev [symmetric] hd_rev)
  show ?thesis
    by (simp add: trim_def a b)
qed

lemma begin_accepted:
  "originalImage st = Some img \<Longrightarrow> \<not> noModifier st \<Longrightarrow>
   splitSecond (dataUrl img) = Some b \<Longrightarrow> b \<noteq> [] \<Longrightarrow>
   handleGeneratePose_begin st =
     (st\<lparr> isLoading := True, error := None, generatedImage := None \<rparr>,
      Some (buildRequest st b img))"
  by (simp add: handleGeneratePose_begin_def)

lemma run_accepted:
  "originalImage st = Some img \<Longrightarrow> \<not> noModifier st \<Longrightarrow>
   splitSecond (dataUrl img) = Some b \<Longrightarrow> b \<noteq> [] \<Longrightarrow>
   handleGeneratePose client st =
     (handleGeneratePose_settle (client (buildRequest st b img))
        (st\<lparr> isLoading := True, error := None, generatedImage := None \<rparr>),
      [buildRequest st b img])"
  by (simp add: handleGeneratePose_def begin_accepted)

lemma splitSecond_sampleImage: "splitSecond (dataUrl sampleImage) = Some ''iVBORw0KGgo=''"
  by (simp add: splitSecond_def sampleImage_def)

text \<open>
  C9. With a source image whose data URL has a payload, the pose text
  "superhero landing pose" and every other modifier empty, the one call of \<open>changePose\<close>
  carries that pose text, empty clothing and background texts, \<open>null\<close> for both reference
  images and their media types, and the flag of the state copied as it is; the flag of the
  initial state is true.
\<close>

theorem superhero_pose_request:
  "originalImage st = Some img \<Longrightarrow> splitSecond (dataUrl img) = Some b \<Longrightarrow> b \<noteq> [] \<Longrightarrow>
   prompt st = ''superhero landing pose'' \<Longrightarrow>
   clothingPrompt st = [] \<Longrightarrow> backgroundPrompt st = [] \<Longrightarrow>
   clothingImage st = None \<Longrightarrow> backgroundImage st = None \<Longrightarrow>
     snd (handleGeneratePose client st) =
       [\<lparr> reqImage = b, reqMimeType = mimeType img,
          reqBackgroundImage = Null, reqBackgroundMimeType = None,
          reqClothingImage = Null, reqClothingMimeType = None,
          reqPrompt = ''superhero landing pose'',
          reqBackgroundPrompt = [], reqClothingPrompt = [],
          reqPreserveBodyShape = preserveBodyShape st \<rparr>]
     \<and> preserveBodyShape initial_state = True"
proof -
  assume img: "originalImage st = Some img" "splitSecond (dataUrl img) = Some b" "b \<noteq> []"
    and p: "prompt st = ''superhero landing pose''"
    and rest: "clothingPrompt st = []" "backgroundPrompt st = []"
      "clothingImage st = None" "backgroundImage st = None"
  have "trim ''superhero landing pose'' = ''superhero landing pose''"
    by (rule trim_keeps) (simp_all add: isWhiteSpace_def)
  with p have "\<not> noModifier st"
    by (simp add: noModifier_def)
  from run_accepted [OF img(1) this img(2) img(3)] p rest show ?thesis
    by (simp add: buildRequest_def wire_of_def initial_state_def)
qed

theorem superhero_pose_request_witness:
  "snd (handleGeneratePose (\<lambda>r. Resolved ''img'') superheroSubmission) =
     [\<lparr> reqImage = ''iVBORw0KGgo='', reqMimeType = ''image/png'',
        reqBackgroundImage = Null, reqBackgroundMimeType = None,
        reqClothingImage = Null, reqClothingMimeType = None,
        reqPrompt = ''superhero landing pose'',
        reqBackgroundPrompt = [], reqClothingPrompt = [],
        reqPreserveBodyShape = True \<rparr>]"
proof -
  have h: "originalImage superheroSubmission = Some sampleImage"
    "splitSecond (dataUrl sampleImage) = Some ''iVBORw0KGgo=''" "''iVBORw0KGgo='' \<noteq> []"
    "prompt superheroSubmission = ''superhero landing pose''"
    "clothingPrompt superheroSubmission = []" "backgroundPrompt superheroSubmission = []"
    "clothingImage superheroSubmission = None" "backgroundImage superheroSubmission = None"
    by (simp_all add: superheroSubmission_def initial_state_def splitSecond_sampleImage)
  have "preserveBodyShape superheroSubmission = True" "mimeType sampleImage = ''image/png''"
    by (simp_all add: superheroSubmission_def initial_state_def sampleImage_def)
  with superhero_pose_request [OF h, of "\<lambda>r. Resolved ''img''"] show ?thesis
    by simp
qed

text \<open>
  C2, as the claim states it, fails: with a clothing image set and the clothing text
  "red dress", the call of \<open>changePose\<close> carries the image and the text "red dress" too.
\<close>

theorem text_not_dropped_counterexample:
  "map reqClothingImage (snd (handleGeneratePose (\<lambda>r. Resolved ''img'') bothSubmission))
     = [Data ''/9j/4AAQ'']
   \<and> map reqClothingPrompt (snd (handleGeneratePose (\<lambda>r. Resolved ''img'') bothSubmission))
     = [''red dress'']"
proof -
  have "\<not> noModifier bothSubmission"
    by (simp add: noModifier_def bothSubmission_def initial_state_def)
  moreover have "originalImage bothSubmission = Some sampleImage"
    by (simp add: bothSubmission_def initial_state_def)
  ultimately have
    "snd (handleGeneratePose (\<lambda>r. Resolved ''img'') bothSubmission)
       = [buildRequest bothSubmission ''iVBORw0KGgo='' sampleImage]"
    by (simp add: run_accepted [OF _ _ splitSecond_sampleImage])
  then show ?thesis
    by (simp add: buildRequest_def wire_of_def splitSecond_def bothSubmission_def
        initial_state_def)
qed

text \<open>
  C2, amended. For a submission with a usable source image and a reference image set for
  clothing or for background, the one call of \<open>changePose\<close> carries, for each of the two
  categories, the payload segment and the media type of the category's image (\<open>null\<close>
  when it has none) and, beside them, the category's text exactly as the state holds it.
  The result is a function of the state alone.
\<close>

theorem image_and_text_both_passed:
  "originalImage st = Some img \<Longrightarrow> splitSecond (dataUrl img) = Some b \<Longrightarrow> b \<noteq> [] \<Longrightarrow>
   clothingImage st \<noteq> None \<or> backgroundImage st \<noteq> None \<Longrightarrow>
     snd (handleGeneratePose client st) = [buildRequest st b img]
     \<and> reqClothingImage (buildRequest st b img) = wire_of (clothingImage st)
     \<and> reqClothingMimeType (buildRequest st b img) = map_option mimeType (clothingImage st)
     \<and> reqClothingPrompt (buildRequest st b img) = clothingPrompt st
     \<and> reqBackgroundImage (buildRequest st b img) = wire_of (backgroundImage st)
     \<and> reqBackgroundMimeType (buildRequest st b img) = map_option mimeType (backgroundImage st)
     \<and> reqBackgroundPrompt (buildRequest st b img) = backgroundPrompt st"
proof -
  assume img: "originalImage st = Some img" "splitSecond (dataUrl img) = Some b" "b \<noteq> []"
    and ref: "clothingImage st \<noteq> None \<or> backgroundImage st \<noteq> None"
  from ref have "\<not> noModifier st"
    by (auto simp: noModifier_def)
  from run_accepted [OF img(1) this img(2) img(3)] show ?thesis
    by (simp add: buildRequest_def)
qed

theorem image_and_text_both_passed_witness:
  "snd (handleGeneratePose (\<lambda>r. Resolved ''img'') bothSubmission)
     = [buildRequest bothSubmission ''iVBORw0KGgo='' sampleImage]
   \<and> reqClothingImage (buildRequest bothSubmission ''iVBORw0KGgo='' sampleImage)
     = Data ''/9j/4AAQ''
   \<and> reqClothingMimeType (buildRequest bothSubmission ''iVBORw0KGgo='' sampleImage)
     = Some ''image/jpeg''
   \<and> reqClothingPrompt (buildRequest bothSubmission ''iVBORw0KGgo='' sampleImage)
     = ''red dress''"
proof -
  have h: "originalImage bothSubmission = Some sampleImage"
    "splitSecond (dataUrl sampleImage) = Some ''iVBORw0KGgo=''" "''iVBORw0KGgo='' \<noteq> []"
    "clothingImage bothSubmission \<noteq> None \<or> backgroundImage bothSubmission \<noteq> None"
    by (simp_all add: bothSubmission_def initial_state_def splitSecond_sampleImage)
  have v: "wire_of (clothingImage bothSubmission) = Data ''/9j/4AAQ''"
    "map_option mimeType (clothingImage bothSubmission) = Some ''image/jpeg''"
    "clothingPrompt bothSubmission = ''red dress''"
    by (simp_all add: bothSubmission_def initial_state_def wire_of_def splitSecond_def)
  from image_and_text_both_passed [OF h, of "\<lambda>r. Resolved ''img''"] v show ?thesis
    by simp
qed

section \<open>Failures of the external call\<close>

lemma settles_accepted_superhero:
  "handleGeneratePose_begin superheroSubmission =
     (superheroSubmission\<lparr> isLoading := True, error := None, generatedImage := None \<rparr>,
      Some (buildRequest superheroSubmission ''iVBORw0KGgo='' sampleImage))"
proof -
  have "\<not> noModifier superheroSubmission"
    by (simp add: noModifier_def superheroSubmission_def initial_state_def trim_def
        isWhiteSpace_def)
  moreover have "originalImage superheroSubmission = Some sampleImage"
    by (simp add: superheroSubmission_def initial_state_def)
  ultimately show ?thesis
    by (simp add: begin_accepted [OF _ _ splitSecond_sampleImage])
qed

lemma no_m_in_unknown: "CHR ''m'' \<notin> set ''Failed to generate new pose. An unknown error occurred.''"
  by simp

text \<open>
  C5, as the claim states it, fails for an error that is not an \<open>Error\<close> instance. When
  \<open>changePose\<close> rejects with the string "timeout", the error of the state is "Failed to
  generate new pose. An unknown error occurred.", and "timeout" is nowhere in it.
\<close>

theorem non_error_detail_lost_counterexample:
  "handleGeneratePose stringRejectingClient superheroSubmission =
     (superheroSubmission
        \<lparr> error := Some ''Failed to generate new pose. An unknown error occurred.'' \<rparr>,
      [buildRequest superheroSubmission ''iVBORw0KGgo='' sampleImage])
   \<and> \<not> (\<exists>before after.
           ''Failed to generate new pose. An unknown error occurred.''
             = before @ ''timeout'' @ after)"
proof -
  have run: "handleGeneratePose stringRejectingClient superheroSubmission =
     (superheroSubmission
        \<lparr> error := Some ''Failed to generate new pose. An unknown error occurred.'' \<rparr>,
      [buildRequest superheroSubmission ''iVBORw0KGgo='' sampleImage])"
    by (simp add: handleGeneratePose_def settles_accepted_superhero stringRejectingClient_def
        handleGeneratePose_settle_def handleGeneratePose_catch_def errorMessage_def)
      (simp add: superheroSubmission_def initial_state_def)
  have absent: "\<not> (\<exists>before after.
           ''Failed to generate new pose. An unknown error occurred.''
             = before @ ''timeout'' @ after)"
  proof
    assume "\<exists>before after.
           ''Failed to generate new pose. An unknown error occurred.''
             = before @ ''timeout'' @ after"
    then obtain before after where
      eq: "''Failed to generate new pose. An unknown error occurred.''
             = before @ ''timeout'' @ after"
      by blast
    have "CHR ''m'' \<in> set (before @ ''timeout'' @ after)"
      by simp
    with eq have "CHR ''m'' \<in> set ''Failed to generate new pose. An unknown error occurred.''"
      by (simp only:)
    with no_m_in_unknown show False
      by blast
  qed
  from run absent show ?thesis
    by blast
qed

text \<open>
  C5, amended. When the call of \<open>changePose\<close> fails with any thrown value, the run ends in
  the state left by the start of the attempt with the error set to "Failed to generate new
  pose. " followed by the message taken from the thrown value, the loading flag off and no
  result; the run returns a state, so nothing is thrown further. The message taken from an
  \<open>Error\<close> instance is its own \<open>message\<close>, character for character; the message taken
  from any other thrown value is the fixed text "An unknown error occurred.", whatever the
  value carries.
\<close>

theorem client_failure_becomes_failed:
  "handleGeneratePose_begin st = (st', Some r) \<Longrightarrow> client r = Rejected e \<Longrightarrow>
     handleGeneratePose client st =
       (st'\<lparr> error := Some (''Failed to generate new pose. '' @ errorMessage e),
             isLoading := False \<rparr>, [r])
     \<and> generatedImage st' = None
     \<and> errorMessage (JsError m) = m
     \<and> errorMessage (NonError v) = ''An unknown error occurred.''"
  by (auto simp: handleGeneratePose_def handleGeneratePose_settle_def
      handleGeneratePose_catch_def handleGeneratePose_begin_def errorMessage_def Let_def
      split: option.splits if_splits)

theorem client_failure_becomes_failed_witness:
  "handleGeneratePose timeoutClient superheroSubmission =
     (superheroSubmission\<lparr> error := Some ''Failed to generate new pose. timeout'' \<rparr>,
      [buildRequest superheroSubmission ''iVBORw0KGgo='' sampleImage])"
proof -
  note b = settles_accepted_superhero
  have c: "timeoutClient (buildRequest superheroSubmission ''iVBORw0KGgo='' sampleImage)
      = Rejected (JsError ''timeout'')"
    by (simp add: timeoutClient_def)
  from client_failure_becomes_failed
    [where client = timeoutClient and m = "''timeout''" and v = "''timeout''", OF b c]
  show ?thesis
    by (simp add: errorMessage_def superheroSubmission_def initial_state_def)
qed

section \<open>Uploads and their wire form\<close>

lemma length_b64alphabet: "length b64alphabet = 64"
  by (simp add: b64alphabet_def)

lemma b64char_in: "n < 64 \<Longrightarrow> b64char n \<in> set b64alphabet"
  unfolding b64char_def by (rule nth_mem) (simp add: length_b64alphabet)

lemma b64char_no_comma: "n < 64 \<Longrightarrow> CHR '','' \<noteq> b64char n"
proof -
  assume "n < 64"
  then have "b64char n \<in> set b64alphabet" by (rule b64char_in)
  moreover have "CHR '','' \<notin> set b64alphabet" by (simp add: b64alphabet_def)
  ultimately show ?thesis by auto
qed

lemma byte_bound: "unat (a :: byte) < 256"
  using unsigned_less [of a, where 'a = nat] by simp

lemma b64_idx:
  "unat (a :: byte) div 4 < 64"
  "unat (a :: byte) mod 4 * 16 < 64"
  "unat (a :: byte) mod 4 * 16 + unat (b :: byte) div 16 < 64"
  "unat (b :: byte) mod 16 * 4 < 64"
  "unat (b :: byte) mod 16 * 4 + unat (c :: byte) div 64 < 64"
  "unat (c :: byte) mod 64 < 64"
  using byte_bound [of a] byte_bound [of b] byte_bound [of c] by simp_all

lemma base64_no_comma: "CHR '','' \<notin> set (base64 bs)"
  by (induction bs rule: base64.induct) (simp_all add: b64char_no_comma b64_idx)

lemma base64_nonempty: "bs \<noteq> [] \<Longrightarrow> base64 bs \<noteq> []"
  by (cases bs rule: base64.cases) simp_all

lemma distinct_b64alphabet: "distinct b64alphabet"
  by (simp add: b64alphabet_def)

lemma b64char_inj: "n < 64 \<Longrightarrow> m < 64 \<Longrightarrow> b64char n = b64char m \<Longrightarrow> n = m"
  unfolding b64char_def
  using distinct_b64alphabet length_b64alphabet by (simp add: nth_eq_iff_index_eq)

lemma b64char_no_pad: "n < 64 \<Longrightarrow> b64char n \<noteq> CHR ''=''"
proof -
  assume "n < 64"
  then have "b64char n \<in> set b64alphabet" by (rule b64char_in)
  moreover have "CHR ''='' \<notin> set b64alphabet" by (simp add: b64alphabet_def)
  ultimately show ?thesis by auto
qed

lemma split_sum:
  fixes h l h' l' k :: nat
  assumes "l < k" "l' < k" "h * k + l = h' * k + l'"
  shows "h = h' \<and> l = l'"
proof -
  from assms have "(h * k + l) div k = (h' * k + l') div k" by simp
  with assms(1,2) have h: "h = h'" by simp
  with assms(3) show ?thesis by simp
qed

lemma rebuild:
  fixes a a' k :: nat
  assumes "a div k = a' div k" "a mod k = a' mod k"
  shows "a = a'"
  using assms by (metis div_mult_mod_eq)


lemma sextets_three:
  fixes a b c a' b' c' :: byte
  assumes e1: "unat a div 4 = unat a' div 4"
    and e2: "unat a mod 4 * 16 + unat b div 16 = unat a' mod 4 * 16 + unat b' div 16"
    and e3: "unat b mod 16 * 4 + unat c div 64 = unat b' mod 16 * 4 + unat c' div 64"
    and e4: "unat c mod 64 = unat c' mod 64"
  shows "a = a' \<and> b = b' \<and> c = c'"
proof -
  have bd: "unat b div 16 < 16" "unat b' div 16 < 16"
    using byte_bound [of b] byte_bound [of b'] by simp_all
  have cd: "unat c div 64 < 4" "unat c' div 64 < 4"
    using byte_bound [of c] byte_bound [of c'] by simp_all
  from split_sum [OF bd e2] have a4: "unat a mod 4 = unat a' mod 4"
    and b16: "unat b div 16 = unat b' div 16" by simp_all
  from split_sum [OF cd e3] have b16': "unat b mod 16 = unat b' mod 16"
    and c64: "unat c div 64 = unat c' div 64" by simp_all
  have "unat a = unat a'" by (rule rebuild [OF e1 a4])
  moreover have "unat b = unat b'" by (rule rebuild [OF b16 b16'])
  moreover have "unat c = unat c'" by (rule rebuild [OF c64 e4])
  ultimately show ?thesis by (simp add: word_unat_eq_iff)
qed

lemma sextets_two:
  fixes a b a' b' :: byte
  assumes e1: "unat a div 4 = unat a' div 4"
    and e2: "unat a mod 4 * 16 + unat b div 16 = unat a' mod 4 * 16 + unat b' div 16"
    and e3: "unat b mod 16 * 4 = unat b' mod 16 * 4"
  shows "a = a' \<and> b = b'"
proof -
  have bd: "unat b div 16 < 16" "unat b' div 16 < 16"
    using byte_bound [of b] byte_bound [of b'] by simp_all
  from split_sum [OF bd e2] have a4: "unat a mod 4 = unat a' mod 4"
    and b16: "unat b div 16 = unat b' div 16" by simp_all
  from e3 have b16': "unat b mod 16 = unat b' mod 16" by simp
  have "unat a = unat a'" by (rule rebuild [OF e1 a4])
  moreover have "unat b = unat b'" by (rule rebuild [OF b16 b16'])
  ultimately show ?thesis by (simp add: word_unat_eq_iff)
qed

lemma sextets_one:
  fixes a a' :: byte
  assumes e1: "unat a div 4 = unat a' div 4" and e2: "unat a mod 4 * 16 = unat a' mod 4 * 16"
  shows "a = a'"
proof -
  from e2 have a4: "unat a mod 4 = unat a' mod 4" by simp
  have "unat a = unat a'" by (rule rebuild [OF e1 a4])
  then show ?thesis by (simp add: word_unat_eq_iff)
qed

lemma b64char_eq_iff: "n < 64 \<Longrightarrow> m < 64 \<Longrightarrow> b64char n = b64char m \<longleftrightarrow> n = m"
  by (auto dest: b64char_inj)

lemma base64_inj: "base64 xs = base64 ys \<Longrightarrow> xs = ys"
proof (induction xs arbitrary: ys rule: base64.induct)
  case 1
  then show ?case
    by (cases ys rule: base64.cases) simp_all
next
  case (2 a)
  then show ?case
    by (cases ys rule: base64.cases)
      (auto simp: b64char_eq_iff b64_idx b64char_no_pad b64char_no_pad [symmetric]
        intro: sextets_one)
next
  case (3 a b)
  then show ?case
    by (cases ys rule: base64.cases)
      (auto simp: b64char_eq_iff b64_idx b64char_no_pad b64char_no_pad [symmetric]
        dest: sextets_two)
next
  case (4 a b c rest)
  show ?case
  proof (cases ys rule: base64.cases)
    case (4 a' b' c' rest')
    with "4.prems" have heads: "a = a' \<and> b = b' \<and> c = c'" and tails: "base64 rest = base64 rest'"
      by (auto simp: b64char_eq_iff b64_idx dest: sextets_three)
    from tails have "rest = rest'" by (rule "4.IH")
    with heads 4 show ?thesis by simp
  qed (use "4.prems" in \<open>auto simp: b64char_no_pad b64char_no_pad [symmetric] b64_idx\<close>)
qed

lemma split_on_no_sep: "c \<notin> set s \<Longrightarrow> split_on c s = [s]"
  by (induction s) auto

lemma split_on_first: "c \<notin> set xs \<Longrightarrow> split_on c (xs @ c # ys) = xs # split_on c ys"
  by (induction xs) auto

lemma splitSecond_one_comma:
  "CHR '','' \<notin> set xs \<Longrightarrow> CHR '','' \<notin> set ys \<Longrightarrow>
   splitSecond (xs @ CHR '','' # ys) = Some ys"
  by (simp add: splitSecond_def split_on_first split_on_no_sep)

lemma splitSecond_readAsDataURL:
  "CHR '','' \<notin> set (fileType f) \<Longrightarrow>
   splitSecond (readAsDataURL f) = Some (base64 (fileBytes f))"
proof -
  assume ty: "CHR '','' \<notin> set (fileType f)"
  have eq: "readAsDataURL f =
      (''data:'' @ fileType f @ '';base64'') @ CHR '','' # base64 (fileBytes f)"
    by (simp add: readAsDataURL_def)
  from ty have pre: "CHR '','' \<notin> set (''data:'' @ fileType f @ '';base64'')"
    by simp
  show ?thesis
    unfolding eq by (rule splitSecond_one_comma [OF pre base64_no_comma])
qed

lemma handleFileChange_image:
  "take 6 (fileType f) = ''image/'' \<Longrightarrow>
   handleFileChange (Some f) = Some \<lparr> dataUrl = readAsDataURL f, mimeType = fileType f \<rparr>"
  by (simp add: handleFileChange_def)

lemma handleFileChange_other:
  "take 6 (fileType f) \<noteq> ''image/'' \<Longrightarrow> handleFileChange (Some f) = None"
  by (simp add: handleFileChange_def)

lemma handleFileChange_accepted:
  "fileType f \<in> acceptedTypes \<Longrightarrow>
   handleFileChange (Some f) = Some \<lparr> dataUrl = readAsDataURL f, mimeType = fileType f \<rparr>"
  by (auto simp: acceptedTypes_def handleFileChange_def)

lemma malformed_source_fails:
  "originalImage st = Some img \<Longrightarrow> \<not> noModifier st \<Longrightarrow>
   splitSecond (dataUrl img) = None \<or> splitSecond (dataUrl img) = Some [] \<Longrightarrow>
   handleGeneratePose client st =
     (st\<lparr> isLoading := False, generatedImage := None,
          error := Some ''Failed to generate new pose. Invalid image data URL.'' \<rparr>, [])"
  by (auto simp: handleGeneratePose_def handleGeneratePose_begin_def
      handleGeneratePose_catch_def invalidDataUrl_def errorMessage_def)

text \<open>
  C7. The code accepts a file whose declared type is none of png, jpeg and webp: a file
  of type \<open>image/gif\<close> becomes an \<open>ImageFile\<close> with the media type \<open>image/gif\<close>.
\<close>

theorem gif_upload_accepted:
  "fileType gifFile \<notin> acceptedTypes
   \<and> handleFileChange (Some gifFile)
       = Some \<lparr> dataUrl = ''data:image/gif;base64,R0lG'', mimeType = ''image/gif'' \<rparr>"
  by (simp add: gifFile_def acceptedTypes_def handleFileChange_def readAsDataURL_def
      b64char_def b64alphabet_def)

text \<open>
  C8, as the claim states it, fails for the empty byte sequence: the upload of an empty
  png file gives a data URL with nothing after the comma, and a generation attempt with
  it as the source image ends with the error "Invalid image data URL." and no call of
  \<open>changePose\<close>, so no payload and no media type come out.
\<close>

theorem empty_upload_counterexample:
  "handleFileChange (Some emptyPngFile)
     = Some \<lparr> dataUrl = ''data:image/png;base64,'', mimeType = ''image/png'' \<rparr>
   \<and> handleGeneratePose (\<lambda>r. Resolved ''img'') emptySourceSubmission
     = (emptySourceSubmission
          \<lparr> error := Some ''Failed to generate new pose. Invalid image data URL.'' \<rparr>, [])"
proof -
  have up: "handleFileChange (Some emptyPngFile)
      = Some \<lparr> dataUrl = ''data:image/png;base64,'', mimeType = ''image/png'' \<rparr>"
    by (simp add: emptyPngFile_def handleFileChange_def readAsDataURL_def)
  have src: "originalImage emptySourceSubmission
      = Some \<lparr> dataUrl = ''data:image/png;base64,'', mimeType = ''image/png'' \<rparr>"
    by (simp add: emptySourceSubmission_def up)
  have m: "\<not> noModifier emptySourceSubmission"
    by (simp add: emptySourceSubmission_def noModifier_def trim_def isWhiteSpace_def)
  have s: "splitSecond (dataUrl \<lparr> dataUrl = ''data:image/png;base64,'', mimeType = ''image/png'' \<rparr>)
      = None \<or>
    splitSecond (dataUrl \<lparr> dataUrl = ''data:image/png;base64,'', mimeType = ''image/png'' \<rparr>)
      = Some []"
    by (simp add: splitSecond_def)
  have "handleGeneratePose (\<lambda>r. Resolved ''img'') emptySourceSubmission
      = (emptySourceSubmission
          \<lparr> error := Some ''Failed to generate new pose. Invalid image data URL.'' \<rparr>, [])"
    by (simp add: malformed_source_fails [OF src m s])
      (simp add: emptySourceSubmission_def initial_state_def)
  with up show ?thesis by simp
qed

text \<open>
  C8, amended. For every non-empty byte sequence and every accepted media type, the upload
  gives an \<open>ImageFile\<close> that carries the type as it is and a data URL whose segment after
  the comma is the base64 text of the bytes, which no other byte sequence has; a generation
  attempt with it as the source image hands exactly that base64 text and that type to
  \<open>changePose\<close>.
\<close>

theorem upload_round_trip:
  "bytes \<noteq> [] \<Longrightarrow> ty \<in> acceptedTypes \<Longrightarrow>
   originalImage st = handleFileChange (Some \<lparr> fileType = ty, fileBytes = bytes \<rparr>) \<Longrightarrow>
   \<not> noModifier st \<Longrightarrow>
     handleFileChange (Some \<lparr> fileType = ty, fileBytes = bytes \<rparr>)
       = Some \<lparr> dataUrl = ''data:'' @ ty @ '';base64,'' @ base64 bytes, mimeType = ty \<rparr>
     \<and> splitSecond (''data:'' @ ty @ '';base64,'' @ base64 bytes) = Some (base64 bytes)
     \<and> (\<forall>other. base64 other = base64 bytes \<longrightarrow> other = bytes)
     \<and> map (\<lambda>r. (reqImage r, reqMimeType r)) (snd (handleGeneratePose client st))
       = [(base64 bytes, ty)]"
proof -
  let ?f = "\<lparr> fileType = ty, fileBytes = bytes \<rparr>"
  let ?img = "\<lparr> dataUrl = readAsDataURL ?f, mimeType = ty \<rparr>"
  assume ne: "bytes \<noteq> []" and ty: "ty \<in> acceptedTypes"
    and src: "originalImage st = handleFileChange (Some ?f)" and m: "\<not> noModifier st"
  from ty have up: "handleFileChange (Some ?f) = Some ?img"
    using handleFileChange_accepted [of ?f] by simp
  from ty have "CHR '','' \<notin> set (fileType ?f)"
    by (auto simp: acceptedTypes_def)
  then have seg: "splitSecond (dataUrl ?img) = Some (base64 bytes)"
    using splitSecond_readAsDataURL [of ?f] by simp
  from src up have src': "originalImage st = Some ?img"
    by simp
  have "snd (handleGeneratePose client st) = [buildRequest st (base64 bytes) ?img]"
    by (simp add: run_accepted [OF src' m seg base64_nonempty [OF ne]])
  with up seg show ?thesis
    by (auto simp: buildRequest_def readAsDataURL_def dest: base64_inj)
qed

theorem upload_round_trip_witness:
  "handleFileChange (Some pngFile)
     = Some \<lparr> dataUrl = ''data:image/png;base64,iVBORw=='', mimeType = ''image/png'' \<rparr>
   \<and> map (\<lambda>r. (reqImage r, reqMimeType r))
       (snd (handleGeneratePose (\<lambda>r. Resolved ''img'') pngSourceSubmission))
     = [(''iVBORw=='', ''image/png'')]"
proof -
  have b: "base64 [0x89, 0x50, 0x4E, 0x47 :: byte] = ''iVBORw==''"
    by (simp add: b64char_def b64alphabet_def)
  have h: "[0x89, 0x50, 0x4E, 0x47 :: byte] \<noteq> []" "''image/png'' \<in> acceptedTypes"
    "originalImage pngSourceSubmission
       = handleFileChange (Some \<lparr> fileType = ''image/png'',
                                   fileBytes = [0x89, 0x50, 0x4E, 0x47] \<rparr>)"
    "\<not> noModifier pngSourceSubmission"
    by (simp_all add: acceptedTypes_def pngSourceSubmission_def pngFile_def noModifier_def
        trim_def isWhiteSpace_def)
  from upload_round_trip [OF h, of "\<lambda>r. Resolved ''img''"] b show ?thesis
    by (simp add: pngFile_def)
qed

text \<open>
  C6. The payload check is made for the source image only. With a usable source image and a
  clothing reference image read from an empty file, whose data URL has nothing after the
  comma, the attempt does not fail: \<open>changePose\<close> is called, with the empty string as the
  clothing image.
\<close>

theorem empty_reference_reaches_client:
  "clothingImage emptyReferenceSubmission
     = Some \<lparr> dataUrl = ''data:image/png;base64,'', mimeType = ''image/png'' \<rparr>
   \<and> map reqClothingImage
       (snd (handleGeneratePose (\<lambda>r. Resolved ''img'') emptyReferenceSubmission))
     = [Data []]
   \<and> error (fst (handleGeneratePose (\<lambda>r. Resolved ''img'') emptyReferenceSubmission))
     = None"
proof -
  have up: "handleFileChange (Some emptyPngFile)
      = Some \<lparr> dataUrl = ''data:image/png;base64,'', mimeType = ''image/png'' \<rparr>"
    by (simp add: emptyPngFile_def handleFileChange_def readAsDataURL_def)
  have src: "originalImage emptyReferenceSubmission = Some sampleImage"
    by (simp add: emptyReferenceSubmission_def)
  have m: "\<not> noModifier emptyReferenceSubmission"
    by (simp add: emptyReferenceSubmission_def noModifier_def up)
  have w: "wire_of (clothingImage emptyReferenceSubmission) = Data []"
    by (simp add: emptyReferenceSubmission_def up wire_of_def splitSecond_def)
  have "handleGeneratePose (\<lambda>r. Resolved ''img'') emptyReferenceSubmission
      = (handleGeneratePose_settle (Resolved ''img'')
           (emptyReferenceSubmission\<lparr> isLoading := True, error := None,
                                        generatedImage := None \<rparr>),
         [buildRequest emptyReferenceSubmission ''iVBORw0KGgo='' sampleImage])"
    by (simp add: run_accepted [OF src m splitSecond_sampleImage])
  with w show ?thesis
    by (simp add: buildRequest_def handleGeneratePose_settle_def)
      (simp add: emptyReferenceSubmission_def up)
qed

section \<open>The generation lifecycle\<close>

lemma step_preserves_inv: "lifecycle_inv s \<Longrightarrow> lifecycle_inv (step e s)"
proof (cases e)
  case ClickGenerate
  assume "lifecycle_inv s"
  then show ?thesis
    by (auto simp: ClickGenerate lifecycle_inv_def step_def invoke_def isGenerationDisabled_def
        handleGeneratePose_begin_def handleGeneratePose_catch_def Let_def
        split: option.splits if_splits)
next
  case (Settle i out)
  assume "lifecycle_inv s"
  then show ?thesis
    by (cases "inflight s"; cases out)
       (auto simp: Settle lifecycle_inv_def step_def remove_nth_def
        handleGeneratePose_settle_def handleGeneratePose_catch_def)
qed (auto simp: lifecycle_inv_def step_def handleImageUpload_def split: option.splits)

lemma reachable_inv: "reachable s \<Longrightarrow> lifecycle_inv s"
proof (induction rule: reachable.induct)
  case start
  show ?case by (simp add: lifecycle_inv_def initial_sys_def initial_state_def)
next
  case (next_event s e)
  then show ?case by (simp add: step_preserves_inv)
qed

lemma reachable_run: "reachable s \<Longrightarrow> reachable (run es s)"
  by (induction es arbitrary: s) (auto intro: reachable.next_event)

lemma base64_pngFile: "base64 (fileBytes pngFile) = ''iVBORw==''"
  by (simp add: pngFile_def b64char_def b64alphabet_def)

lemma readySys_eq:
  "readySys =
     \<lparr> app = initial_state
         \<lparr> originalImage := Some \<lparr> dataUrl = ''data:image/png;base64,iVBORw=='',
                                    mimeType = ''image/png'' \<rparr>,
           prompt := ''wave'', isLoading := False \<rparr>,
       initPhase = Reading, inflight = [], calls = [] \<rparr>"
  by (simp add: readySys_def step_def initial_sys_def initial_state_def handleFileChange_def
      handleImageUpload_def readAsDataURL_def base64_pngFile)
    (simp add: pngFile_def)

lemma readySys_enabled: "\<not> isGenerationDisabled (app readySys)"
  by (simp add: readySys_eq isGenerationDisabled_def noModifier_def initial_state_def
      trim_def isWhiteSpace_def)

lemma pendingSys_eq:
  "pendingSys =
     \<lparr> app = initial_state
         \<lparr> originalImage := Some \<lparr> dataUrl = ''data:image/png;base64,iVBORw=='',
                                    mimeType = ''image/png'' \<rparr>,
           prompt := ''wave'' \<rparr>,
       initPhase = Reading, inflight = [waveRequest], calls = [waveRequest] \<rparr>"
proof -
  have "pendingSys = invoke readySys"
    by (simp add: pendingSys_def step_def readySys_enabled)
  also have "\<dots> = \<lparr> app = initial_state
         \<lparr> originalImage := Some \<lparr> dataUrl = ''data:image/png;base64,iVBORw=='',
                                    mimeType = ''image/png'' \<rparr>,
           prompt := ''wave'' \<rparr>,
       initPhase = Reading, inflight = [waveRequest], calls = [waveRequest] \<rparr>"
    by (simp add: invoke_def readySys_eq handleGeneratePose_begin_def noModifier_def
        initial_state_def trim_def isWhiteSpace_def splitSecond_def buildRequest_def
        wire_of_def waveRequest_def)
  finally show ?thesis .
qed

lemma reachable_readySys: "reachable readySys"
  unfolding readySys_def by (rule reachable_run) (rule reachable.start)

lemma reachable_pendingSys: "reachable pendingSys"
  unfolding pendingSys_def by (rule reachable.next_event) (rule reachable_readySys)

text \<open>
  C1, as the claim states it, fails. In a reachable state with one call in flight, a
  second call of \<open>handleGeneratePose\<close> that does not come through the disabled button
  makes a second call of \<open>changePose\<close>, and both outcomes are then observed: when the
  first call succeeds and the second fails, the state shows the result of the first and
  the error of the second.
\<close>

theorem overlapping_invocation_counterexample:
  "reachable pendingSys
   \<and> inflight pendingSys = [waveRequest] \<and> calls pendingSys = [waveRequest]
   \<and> calls (invoke pendingSys) = [waveRequest, waveRequest]
   \<and> inflight (invoke pendingSys) = [waveRequest, waveRequest]
   \<and> generatedImage (app (run [Settle 0 (Resolved ''first''),
                                 Settle 0 (Rejected (JsError ''second''))]
                             (invoke pendingSys))) = Some ''first''
   \<and> error (app (run [Settle 0 (Resolved ''first''),
                       Settle 0 (Rejected (JsError ''second''))]
                   (invoke pendingSys))) = Some ''Failed to generate new pose. second''"
proof -
  have inv: "invoke pendingSys =
      pendingSys\<lparr> inflight := [waveRequest, waveRequest], calls := [waveRequest, waveRequest] \<rparr>"
    by (simp add: invoke_def pendingSys_eq handleGeneratePose_begin_def noModifier_def
        initial_state_def trim_def isWhiteSpace_def splitSecond_def buildRequest_def
        wire_of_def waveRequest_def)
  show ?thesis
    unfolding inv
    by (simp add: reachable_pendingSys)
      (simp add: pendingSys_eq step_def remove_nth_def handleGeneratePose_settle_def
        handleGeneratePose_catch_def errorMessage_def)
qed

text \<open>
  C1, amended. In every reachable state with a call in flight, exactly one call is in
  flight and the Generate button is disabled, so a click on it changes nothing: no second
  call of \<open>changePose\<close> is made. When the call settles, nothing is in flight any more, no
  call has been added, and the component is in the state that the outcome of that call
  gives.
\<close>

theorem pending_disables_trigger:
  "reachable s \<Longrightarrow> inflight s \<noteq> [] \<Longrightarrow>
     length (inflight s) = 1
     \<and> isGenerationDisabled (app s)
     \<and> step ClickGenerate s = s
     \<and> inflight (step (Settle 0 out) s) = []
     \<and> calls (step (Settle 0 out) s) = calls s
     \<and> app (step (Settle 0 out) s) = handleGeneratePose_settle out (app s)"
proof -
  assume "reachable s" and pending: "inflight s \<noteq> []"
  then have "lifecycle_inv s"
    by (simp add: reachable_inv)
  with pending have one: "length (inflight s) = 1" and loading: "isLoading (app s)"
    by (cases "inflight s"; simp add: lifecycle_inv_def)+
  from loading have dis: "isGenerationDisabled (app s)"
    by (simp add: isGenerationDisabled_def)
  from one obtain r where "inflight s = [r]"
    by (cases "inflight s") simp_all
  then show ?thesis
    using one dis by (simp add: step_def remove_nth_def)
qed

theorem pending_disables_trigger_witness:
  "reachable pendingSys \<and> inflight pendingSys \<noteq> []
   \<and> step ClickGenerate pendingSys = pendingSys
   \<and> inflight (step (Settle 0 (Resolved ''img'')) pendingSys) = []
   \<and> calls (step (Settle 0 (Resolved ''img'')) pendingSys) = [waveRequest]
   \<and> generatedImage (app (step (Settle 0 (Resolved ''img'')) pendingSys)) = Some ''img''"
proof -
  note h = reachable_pendingSys
  have p: "inflight pendingSys \<noteq> []"
    by (simp add: pendingSys_eq)
  have c: "calls pendingSys = [waveRequest]"
    by (simp add: pendingSys_eq)
  from pending_disables_trigger [OF h p, of "Resolved ''img''"] h p c show ?thesis
    by (simp add: handleGeneratePose_settle_def)
qed

text \<open>
  C10. In every reachable state the result and the error are not both set. The start of
  an attempt, which the button allows only when it is not disabled, leaves no result, and
  no error either when it leaves the loading flag on; a call that fails sets the error
  and the result is unset; a call that succeeds sets the result and the error is unset;
  a new source image clears both.
\<close>

theorem result_and_error_exclusive:
  "reachable s \<Longrightarrow>
     (generatedImage (app s) = None \<or> error (app s) = None)
     \<and> (\<not> isGenerationDisabled (app s) \<longrightarrow>
          generatedImage (app (step ClickGenerate s)) = None
          \<and> (isLoading (app (step ClickGenerate s)) \<longrightarrow>
               error (app (step ClickGenerate s)) = None))
     \<and> (i < length (inflight s) \<longrightarrow>
          generatedImage (app (step (Settle i (Rejected x)) s)) = None
          \<and> error (app (step (Settle i (Rejected x)) s))
              = Some (''Failed to generate new pose. '' @ errorMessage x))
     \<and> (i < length (inflight s) \<longrightarrow>
          generatedImage (app (step (Settle i (Resolved img)) s)) = Some img
          \<and> error (app (step (Settle i (Resolved img)) s)) = None)
     \<and> (handleFileChange file = Some f \<longrightarrow>
          generatedImage (app (step (SourceFile file) s)) = None
          \<and> error (app (step (SourceFile file) s)) = None)"
proof -
  assume r: "reachable s"
  then have inv: "lifecycle_inv s"
    by (rule reachable_inv)
  then have a: "generatedImage (app s) = None \<or> error (app s) = None"
    by (simp add: lifecycle_inv_def)
  have b: "generatedImage (app (step ClickGenerate s)) = None
      \<and> (isLoading (app (step ClickGenerate s)) \<longrightarrow> error (app (step ClickGenerate s)) = None)"
    if "\<not> isGenerationDisabled (app s)"
    using that
    by (auto simp: step_def invoke_def isGenerationDisabled_def handleGeneratePose_begin_def
        handleGeneratePose_catch_def Let_def split: option.splits)
  have pend: "error (app s) = None \<and> generatedImage (app s) = None" if "i < length (inflight s)"
    using that inv by (cases "inflight s") (simp_all add: lifecycle_inv_def)
  have c: "generatedImage (app (step (Settle i (Rejected x)) s)) = None
      \<and> error (app (step (Settle i (Rejected x)) s))
          = Some (''Failed to generate new pose. '' @ errorMessage x)"
    if "i < length (inflight s)"
    using that pend
    by (simp add: step_def handleGeneratePose_settle_def handleGeneratePose_catch_def)
  have d: "generatedImage (app (step (Settle i (Resolved img)) s)) = Some img
      \<and> error (app (step (Settle i (Resolved img)) s)) = None"
    if "i < length (inflight s)"
    using that pend by (simp add: step_def handleGeneratePose_settle_def)
  have e: "generatedImage (app (step (SourceFile file) s)) = None
      \<and> error (app (step (SourceFile file) s)) = None"
    if "handleFileChange file = Some f"
    using that by (simp add: step_def handleImageUpload_def)
  from a b c d e show ?thesis
    by blast
qed

theorem result_and_error_exclusive_witness:
  "reachable readySys \<and> \<not> isGenerationDisabled (app readySys)
   \<and> generatedImage (app pendingSys) = None \<and> error (app pendingSys) = None
   \<and> reachable pendingSys \<and> 0 < length (inflight pendingSys)
   \<and> generatedImage (app (step (Settle 0 (Resolved ''img'')) pendingSys)) = Some ''img''
   \<and> error (app (step (Settle 0 (Resolved ''img'')) pendingSys)) = None
   \<and> generatedImage (app (step (Settle 0 (Rejected (JsError ''timeout''))) pendingSys)) = None
   \<and> error (app (step (Settle 0 (Rejected (JsError ''timeout''))) pendingSys))
       = Some ''Failed to generate new pose. timeout''
   \<and> handleFileChange (Some gifFile)
       = Some \<lparr> dataUrl = ''data:image/gif;base64,R0lG'', mimeType = ''image/gif'' \<rparr>
   \<and> generatedImage (app (step (SourceFile (Some gifFile)) pendingSys)) = None
   \<and> error (app (step (SourceFile (Some gifFile)) pendingSys)) = None"
proof -
  have up: "handleFileChange (Some gifFile)
      = Some \<lparr> dataUrl = ''data:image/gif;base64,R0lG'', mimeType = ''image/gif'' \<rparr>"
    by (simp add: gifFile_def handleFileChange_def readAsDataURL_def b64char_def
        b64alphabet_def)
  have len: "0 < length (inflight pendingSys)"
    by (simp add: pendingSys_eq)
  have loading: "isLoading (app pendingSys)"
    by (simp add: pendingSys_eq initial_state_def)
  from result_and_error_exclusive [OF reachable_readySys, of 0 x img "None" f]
    readySys_enabled loading
  have ready: "generatedImage (app pendingSys) = None \<and> error (app pendingSys) = None"
    by (simp add: pendingSys_def)
  from result_and_error_exclusive [OF reachable_pendingSys, of 0 "JsError ''timeout''"
      "''img''" "Some gifFile"
      "\<lparr> dataUrl = ''data:image/gif;base64,R0lG'', mimeType = ''image/gif'' \<rparr>"]
    len up ready
  show ?thesis
    by (simp add: reachable_readySys reachable_pendingSys readySys_enabled errorMessage_def)
qed

end
